theory Spec2Isabelle
  imports Complex_Main "HOL-Library.Sublist" "HOL-Library.AList" "HOL-Library.Char_ord" "HOL-Library.List_Lexorder"
begin

section \<open>Python values shared by the modules\<close>

text \<open>
  The compiler is written in Python.  Exceptions are values of the type \<open>exn\<close>; a function
  that may raise returns \<open>exn + 'a\<close> with \<open>Inl\<close> for the raised exception.  The constructors
  name the exception and carry what its message is built from.
\<close>

datatype ty = TBool | TInt | TReal | TStr

datatype label = OperatorLabel string | FunctionLabel string

datatype exn =
    ValidationException string string
  | InvalidTypes label "ty list"
  | RegexpDisabled
  | InvalidRegexp
  | JoinOutsideMatch
  | InvalidArgumentCount string
  | InvalidArgumentTypes string
  | UnknownFunctionException string nat
  | UnknownOperatorException string nat
  | MismatchedParenthesesException nat
  | MissingOperandException string nat
  | ExtraInputException
  | IndexError
  | KeyError
  | ZeroDivisionError
  | OverflowError
  | ValueError
  | TypeError
  | AttributeError
  | AssertionError
  | GilesError string

text \<open>\<open>str(n)\<close> for a natural number and for an integer: decimal digits, a leading minus sign.\<close>

fun str_nat :: "nat \<Rightarrow> string" where
  "str_nat n = (if n < 10 then [''0123456789'' ! n] else str_nat (n div 10) @ [''0123456789'' ! (n mod 10)])"

declare str_nat.simps [simp del]

definition str_int :: "int \<Rightarrow> string" where
  "str_int i = (if i < 0 then CHR ''-'' # str_nat (nat (- i)) else str_nat (nat i))"

section \<open>validate.py: the List validator\<close>

text \<open>
  A decoded document value, as far as the List validator looks at it: a Python list of
  members, or some other object.
\<close>

datatype 'a pyobj = PyList "'a list" | PyOther 'a

text \<open>
  \<open>List.__init__(members, min_length, max_length)\<close> stores a member validator and two optional
  bounds.  A validator is called with the object and a location path and returns the
  normalised object or raises a ValidationException (message, location).
\<close>

record ('a, 'b) list_validator =
  members :: "'a \<Rightarrow> string \<Rightarrow> exn + 'b"
  min_length :: "int option"
  max_length :: "int option"

text \<open>The loop \<open>for i in range(0, len(obj)): result.append(self.members(obj[i], "%s[%s]" % (location, i)))\<close>.\<close>

fun validate_members :: "('a \<Rightarrow> string \<Rightarrow> exn + 'b) \<Rightarrow> string \<Rightarrow> nat \<Rightarrow> 'a list \<Rightarrow> exn + 'b list" where
  "validate_members m location i [] = Inr []"
| "validate_members m location i (x # xs) =
     (case m x (location @ ''['' @ str_nat i @ '']'') of
        Inl e \<Rightarrow> Inl e
      | Inr y \<Rightarrow> (case validate_members m location (Suc i) xs of
                   Inl e \<Rightarrow> Inl e
                 | Inr ys \<Rightarrow> Inr (y # ys)))"

definition List_call :: "('a, 'b) list_validator \<Rightarrow> 'a pyobj \<Rightarrow> string \<Rightarrow> exn + 'b list" where
  "List_call self obj location =
     (case obj of
        PyOther _ \<Rightarrow> Inl (ValidationException ''Expected a list'' location)
      | PyList xs \<Rightarrow>
          (if min_length self \<noteq> None \<and> int (length xs) < the (min_length self)
           then Inl (ValidationException
                  (''Expected a list of at least length '' @ str_int (the (min_length self))) location)
           else if max_length self \<noteq> None \<and> int (length xs) < the (max_length self)
           then Inl (ValidationException
                  (''Expected a list of at most length '' @ str_int (the (max_length self))) location)
           else validate_members (members self) location 0 xs))"

text \<open>The Boolean validator with no fixed value, used as a member validator in the examples.\<close>

datatype scalar = SBool bool | SInt int | SStr string

definition Boolean_call :: "scalar \<Rightarrow> string \<Rightarrow> exn + scalar" where
  "Boolean_call obj location =
     (case obj of SBool b \<Rightarrow> Inr obj | _ \<Rightarrow> Inl (ValidationException ''Expected a boolean value'' location))"

subsection \<open>Claim C9\<close>

lemma str_nat_2: "str_nat 2 = ''2''"
  by (simp add: str_nat.simps)

text \<open>
  C9 (the code departs from the claim).  The claim: the List validator fails when the list
  is longer than \<open>max\<close>.  The source tests \<open>len(obj) < self.max_length\<close> before raising
  "Expected a list of at most length": with \<open>max_length = 2\<close> a list of three booleans is
  accepted and returned, while a list of one boolean, which respects the bound, is refused.
\<close>

theorem List_max_length_not_enforced:
  "List_call \<lparr>members = Boolean_call, min_length = None, max_length = Some 2\<rparr>
     (PyList [SBool True, SBool False, SBool True]) ''/''
     = Inr [SBool True, SBool False, SBool True]
   \<and> List_call \<lparr>members = Boolean_call, min_length = None, max_length = Some 2\<rparr>
     (PyList [SBool True]) ''/''
     = Inl (ValidationException ''Expected a list of at most length 2'' ''/'')"
  by (simp add: List_call_def Boolean_call_def str_int_def str_nat_2)


section \<open>sqlite\_backend.py: index demands\<close>

text \<open>\<open>str.lower()\<close> on ASCII text; other characters are left as they are.\<close>

definition lower_char :: "char \<Rightarrow> char" where
  "lower_char c =
     (case map_of (zip ''ABCDEFGHIJKLMNOPQRSTUVWXYZ'' ''abcdefghijklmnopqrstuvwxyz'') c of
        None \<Rightarrow> c
      | Some d \<Rightarrow> d)"

definition lower :: "string \<Rightarrow> string" where
  "lower s = map lower_char s"

fun join_str :: "string \<Rightarrow> string list \<Rightarrow> string" where
  "join_str sep [] = []"
| "join_str sep [x] = x"
| "join_str sep (x # y # ys) = x @ sep @ join_str sep (y # ys)"

text \<open>
  \<open>indexes\<close> maps a table name to a prefix tree of field names: nested Python dictionaries,
  which keep their keys in insertion order.  A dictionary is an association list with
  distinct keys; \<open>AList.update\<close> replaces the value of a key in place and appends a new key
  at the end, as assignment to a dictionary entry does.  The key type \<open>'k\<close> is the field
  identifier as the dictionary compares it.
\<close>

datatype 'k index_tree = Tree "('k \<times> 'k index_tree) list"


text \<open>
  \<open>dft(tree, leaf_callback, path)\<close> of \<open>generate\<close>: the paths handed to the callback, in call order.
\<close>

fun dft :: "'k index_tree \<Rightarrow> 'k list \<Rightarrow> 'k list list" where
  "dft (Tree kids) path =
     (if kids = [] then [path] else concat (map (\<lambda>(k, v). dft v (path @ [k])) kids))"







text \<open>
  The end of \<open>generate\<close>: \<open>for table, tree in indexes.items(): dft(tree, lambda path:
  callback(table, path))\<close>.  \<open>index_leaves\<close> lists the (table, path) pairs in the order the
  callback receives them; the callback numbers them from 1 and appends one statement each.
\<close>

definition index_leaves :: "(string \<times> 'k index_tree) list \<Rightarrow> (string \<times> 'k list) list" where
  "index_leaves indexes = concat (map (\<lambda>(table, tree). map (Pair table) (dft tree [])) indexes)"

definition callback :: "string \<Rightarrow> nat \<Rightarrow> string \<Rightarrow> string list \<Rightarrow> string" where
  "callback pfx index_number table path =
     [CHR 0x0A] @ ''CREATE INDEX '' @ pfx @ ''_auto_index_'' @ str_nat index_number @
     '' ON '' @ table @ ''('' @ join_str '','' path @ '');''"

definition create_index_statements :: "string \<Rightarrow> (string \<times> string index_tree) list \<Rightarrow> string list" where
  "create_index_statements pfx indexes =
     map (\<lambda>(n, (table, path)). callback pfx n table path)
       (zip [1 ..< Suc (length (index_leaves indexes))] (index_leaves indexes))"

subsection \<open>Claim C5\<close>























section \<open>giles.py: the cycle checker\<close>

text \<open>
  \<open>find_cycle(nodes, edges)\<close> of \<open>main\<close>.  \<open>todo\<close> is a Python set and \<open>edges(top)\<close> returns one;
  the order in which a set is popped and iterated is not fixed by the language, so both are
  lists here, in the order the run visits them: \<open>todo.pop()\<close> takes the head, and the results
  hold for every order of \<open>nodes\<close> and of each \<open>edges x\<close>.

  The \<open>for node in edges(top)\<close> loop ends in one of three ways: a node on the stack is met
  (the function returns), a node still in \<open>todo\<close> is met (it is pushed, then \<open>break\<close>), or the
  loop runs out (the \<open>else\<close> branch pops the stack).
\<close>

datatype 'a scan = Found 'a | Push 'a | Exhausted

fun scan_edges :: "'a list \<Rightarrow> 'a list \<Rightarrow> 'a list \<Rightarrow> 'a scan" where
  "scan_edges [] stack todo = Exhausted"
| "scan_edges (node # rest) stack todo =
     (if node \<in> set stack then Found node
      else if node \<in> set todo then Push node
      else scan_edges rest stack todo)"

lemma scan_edges_Push:
  "scan_edges es stack todo = Push n \<Longrightarrow> n \<in> set todo \<and> n \<notin> set stack \<and> n \<in> set es"
  by (induction es) (auto split: if_splits)

lemma scan_edges_Found:
  "scan_edges es stack todo = Found n \<Longrightarrow> n \<in> set stack \<and> n \<in> set es"
  by (induction es) (auto split: if_splits)

lemma scan_edges_Exhausted:
  "scan_edges es stack todo = Exhausted \<Longrightarrow> set es \<inter> (set stack \<union> set todo) = {}"
  by (induction es) (auto split: if_splits)

lemma length_removeAll_less: "n \<in> set xs \<Longrightarrow> length (removeAll n xs) < length xs"
  by (induction xs) (auto simp: less_Suc_eq_le length_removeAll_less_eq)

text \<open>
  \<open>while len(stack) > 0\<close>: the result is the cycle returned from inside the loop, if any, and
  the \<open>todo\<close> set as the loop leaves it.  \<open>stack[stack.index(node):]\<close> is the stack from the
  first occurrence of \<open>node\<close> on.
\<close>

function inner_loop :: "('a \<Rightarrow> 'a list) \<Rightarrow> 'a list \<Rightarrow> 'a list \<Rightarrow> 'a list option \<times> 'a list" where
  "inner_loop edges todo stack =
     (if stack = [] then (None, todo)
      else (case scan_edges (edges (last stack)) stack todo of
              Found node \<Rightarrow> (Some (dropWhile (\<lambda>x. x \<noteq> node) stack), todo)
            | Push node \<Rightarrow> inner_loop edges (removeAll node todo) (stack @ [node])
            | Exhausted \<Rightarrow> inner_loop edges todo (butlast stack)))"
  by pat_completeness auto
termination
proof (relation "measure (\<lambda>(edges, todo, stack). 2 * length todo + length stack)")
  show "wf (measure (\<lambda>(edges, todo, stack). 2 * length todo + length stack))" by simp
next
  fix edges :: "'a \<Rightarrow> 'a list" and todo stack x2
  assume "stack \<noteq> []" and "scan_edges (edges (last stack)) stack todo = Push x2"
  then have "x2 \<in> set todo" by (auto dest: scan_edges_Push)
  then have "length (removeAll x2 todo) < length todo" by (rule length_removeAll_less)
  then show "((edges, removeAll x2 todo, stack @ [x2]), edges, todo, stack)
       \<in> measure (\<lambda>(edges, todo, stack). 2 * length todo + length stack)"
    by simp
next
  fix edges :: "'a \<Rightarrow> 'a list" and todo stack
  assume "stack \<noteq> []"
  then show "((edges, todo, butlast stack), edges, todo, stack)
       \<in> measure (\<lambda>(edges, todo, stack). 2 * length todo + length stack)"
    by (cases stack rule: rev_cases) auto
qed

declare inner_loop.simps [simp del]

lemma inner_loop_todo: "inner_loop edges todo stack = (r, todo') \<Longrightarrow> length todo' \<le> length todo"
proof (induction edges todo stack rule: inner_loop.induct)
  case (1 edges todo stack)
  show ?case
  proof (cases "stack = []")
    case True
    with 1(3) show ?thesis by (simp add: inner_loop.simps)
  next
    case False
    show ?thesis
    proof (cases "scan_edges (edges (last stack)) stack todo")
      case (Found n)
      with False 1(3) show ?thesis by (simp add: inner_loop.simps)
    next
      case (Push n)
      with False 1(3) have "inner_loop edges (removeAll n todo) (stack @ [n]) = (r, todo')"
        by (simp add: inner_loop.simps)
      from 1(1)[OF False Push this] have "length todo' \<le> length (removeAll n todo)" .
      also have "\<dots> \<le> length todo" by (rule length_removeAll_less_eq)
      finally show ?thesis .
    next
      case Exhausted
      with False 1(3) have "inner_loop edges todo (butlast stack) = (r, todo')"
        by (simp add: inner_loop.simps)
      from 1(2)[OF False Exhausted this] show ?thesis .
    qed
  qed
qed

text \<open>\<open>while len(todo) > 0: node = todo.pop(); stack = [node]; ...\<close>, and \<open>return None\<close> after it.\<close>

function outer_loop :: "('a \<Rightarrow> 'a list) \<Rightarrow> 'a list \<Rightarrow> 'a list option" where
  "outer_loop edges [] = None"
| "outer_loop edges (node # todo) =
     (case inner_loop edges todo [node] of
        (Some cycle, _) \<Rightarrow> Some cycle
      | (None, todo') \<Rightarrow> outer_loop edges todo')"
  by pat_completeness auto
termination
  apply (relation "measure (\<lambda>(edges, todo). length todo)")
   apply simp
  apply (auto dest!: inner_loop_todo[OF sym] simp: less_Suc_eq_le)
  done

definition find_cycle :: "'a list \<Rightarrow> ('a \<Rightarrow> 'a list) \<Rightarrow> 'a list option" where
  "find_cycle nodes edges = outer_loop edges (remdups nodes)"


text \<open>
  The rule graph the checker is given: the edges between members of the node set.  A cycle
  as the checker reports it: a non-empty list of distinct nodes, each followed by one of its
  successors, whose last node has the first node among its successors.
\<close>

definition graph_edges :: "'a list \<Rightarrow> ('a \<Rightarrow> 'a list) \<Rightarrow> ('a \<times> 'a) set" where
  "graph_edges nodes edges = {(a, b). a \<in> set nodes \<and> b \<in> set nodes \<and> b \<in> set (edges a)}"

definition is_cycle :: "'a list \<Rightarrow> ('a \<Rightarrow> 'a list) \<Rightarrow> 'a list \<Rightarrow> bool" where
  "is_cycle nodes edges c \<longleftrightarrow>
     c \<noteq> [] \<and> distinct c \<and> set c \<subseteq> set nodes \<and>
     successively (\<lambda>a b. b \<in> set (edges a)) c \<and> hd c \<in> set (edges (last c))"

text \<open>For the proof: the nodes that are neither pending nor on the stack have all their
  successors among themselves and lie on no cycle.\<close>

definition finished_ok :: "('a \<times> 'a) set \<Rightarrow> 'a set \<Rightarrow> bool" where
  "finished_ok E D \<longleftrightarrow> (\<forall>x \<in> D. \<forall>y. (x, y) \<in> E \<longrightarrow> y \<in> D) \<and> (\<forall>x \<in> D. (x, x) \<notin> E\<^sup>+)"

lemma finished_trancl:
  assumes "finished_ok E D" "(x, y) \<in> E\<^sup>+" "x \<in> D"
  shows "y \<in> D"
  using assms(2,3,1) by (induction rule: trancl_induct) (auto simp: finished_ok_def)

lemma finished_insert:
  assumes f: "finished_ok E D" and succ: "\<And>y. (t, y) \<in> E \<Longrightarrow> y \<in> D" and t: "t \<notin> D"
  shows "finished_ok E (insert t D)"
proof -
  have "(t, t) \<notin> E\<^sup>+"
  proof
    assume "(t, t) \<in> E\<^sup>+"
    then obtain y where y: "(t, y) \<in> E" "(y, t) \<in> E\<^sup>*" by (auto dest: tranclD)
    then have yD: "y \<in> D" using succ by blast
    with t have "y \<noteq> t" by auto
    with y(2) have "(y, t) \<in> E\<^sup>+" by (auto simp: rtrancl_eq_or_trancl)
    from finished_trancl[OF f this yD] t show False by simp
  qed
  then show ?thesis using f succ by (auto simp: finished_ok_def)
qed

lemma path_rtrancl:
  assumes "successively (\<lambda>a b. b \<in> set (edges a)) c" "set c \<subseteq> set nodes" "c \<noteq> []"
  shows "(hd c, last c) \<in> (graph_edges nodes edges)\<^sup>*"
  using assms
proof (induction c rule: rev_induct)
  case Nil
  then show ?case by simp
next
  case (snoc x xs)
  show ?case
  proof (cases "xs = []")
    case True
    then show ?thesis by simp
  next
    case False
    from snoc.prems(1) False have s: "successively (\<lambda>a b. b \<in> set (edges a)) xs"
      and e: "x \<in> set (edges (last xs))"
      by (simp_all add: successively_append_iff)
    have "(hd xs, last xs) \<in> (graph_edges nodes edges)\<^sup>*"
      using snoc.IH[OF s] snoc.prems(2) False by simp
    moreover have "(last xs, x) \<in> graph_edges nodes edges"
      using e snoc.prems(2) False by (auto simp: graph_edges_def)
    ultimately show ?thesis using False by (auto intro: rtrancl_into_rtrancl)
  qed
qed

lemma is_cycle_not_acyclic:
  assumes "is_cycle nodes edges c"
  shows "\<not> acyclic (graph_edges nodes edges)"
proof -
  from assms have c: "c \<noteq> []" "set c \<subseteq> set nodes"
    "successively (\<lambda>a b. b \<in> set (edges a)) c" "hd c \<in> set (edges (last c))"
    by (auto simp: is_cycle_def)
  have "(hd c, last c) \<in> (graph_edges nodes edges)\<^sup>*" using path_rtrancl[OF c(3) c(2) c(1)] .
  moreover have "(last c, hd c) \<in> graph_edges nodes edges"
    using c by (auto simp: graph_edges_def)
  ultimately have "(hd c, hd c) \<in> (graph_edges nodes edges)\<^sup>+" by (rule rtrancl_into_trancl1)
  then show ?thesis by (auto simp: acyclic_def)
qed

lemma inner_loop_correct:
  assumes "distinct stack" "distinct todo" "set stack \<inter> set todo = {}"
    "set stack \<subseteq> set nodes" "set todo \<subseteq> set nodes"
    "successively (\<lambda>a b. b \<in> set (edges a)) stack"
    "finished_ok (graph_edges nodes edges) (set nodes - set todo - set stack)"
    "inner_loop edges todo stack = (r, todo')"
  shows "(case r of
            None \<Rightarrow> distinct todo' \<and> set todo' \<subseteq> set nodes \<and>
                    finished_ok (graph_edges nodes edges) (set nodes - set todo')
          | Some c \<Rightarrow> is_cycle nodes edges c)"
  using assms
proof (induction edges todo stack rule: inner_loop.induct)
  case (1 edges todo stack)
  show ?case
  proof (cases "stack = []")
    case True
    with "1.prems" show ?thesis by (auto simp: inner_loop.simps)
  next
    case ne: False
    let ?top = "last stack"
    show ?thesis
    proof (cases "scan_edges (edges ?top) stack todo")
      case (Found n)
      with ne "1.prems"(8) have r: "r = Some (dropWhile (\<lambda>x. x \<noteq> n) stack)"
        by (simp add: inner_loop.simps)
      let ?c = "dropWhile (\<lambda>x. x \<noteq> n) stack"
      from Found have n: "n \<in> set stack" "n \<in> set (edges ?top)" by (auto dest: scan_edges_Found)
      have cne: "?c \<noteq> []" using n(1) by (auto simp: dropWhile_eq_Nil_conv)
      have hd: "hd ?c = n" using n(1) hd_dropWhile[of "\<lambda>x. x \<noteq> n" stack] cne by auto
      have split: "stack = takeWhile (\<lambda>x. x \<noteq> n) stack @ ?c" by simp
      have last: "last ?c = ?top" using cne by (metis last_appendR split)
      have "distinct ?c" using "1.prems"(1) by (rule distinct_dropWhile)
      moreover have "set ?c \<subseteq> set nodes" using "1.prems"(4) set_dropWhileD by fastforce
      moreover have "successively (\<lambda>a b. b \<in> set (edges a)) ?c"
        using "1.prems"(6) by (subst (asm) split) (simp only: successively_append_iff)
      ultimately have "is_cycle nodes edges ?c"
        using cne hd last n(2) by (simp add: is_cycle_def)
      with r show ?thesis by simp
    next
      case (Push n)
      with ne "1.prems"(8) have eq: "inner_loop edges (removeAll n todo) (stack @ [n]) = (r, todo')"
        by (simp add: inner_loop.simps)
      from Push have n: "n \<in> set todo" "n \<notin> set stack" "n \<in> set (edges ?top)"
        by (auto dest: scan_edges_Push)
      have D: "set nodes - set (removeAll n todo) - set (stack @ [n]) = set nodes - set todo - set stack"
        using n by auto
      show ?thesis
      proof (rule "1.IH"(1)[OF ne Push _ _ _ _ _ _ _ eq])
        show "distinct (stack @ [n])" using "1.prems"(1) n by simp
        show "distinct (removeAll n todo)" using "1.prems"(2) by (simp add: distinct_removeAll)
        show "set (stack @ [n]) \<inter> set (removeAll n todo) = {}" using "1.prems"(3) by auto
        show "set (stack @ [n]) \<subseteq> set nodes" using "1.prems"(4,5) n by auto
        show "set (removeAll n todo) \<subseteq> set nodes" using "1.prems"(5) by auto
        show "successively (\<lambda>a b. b \<in> set (edges a)) (stack @ [n])"
          using "1.prems"(6) ne n by (simp add: successively_append_iff)
        show "finished_ok (graph_edges nodes edges)
            (set nodes - set (removeAll n todo) - set (stack @ [n]))"
          unfolding D using "1.prems"(7) .
      qed
    next
      case Exhausted
      with ne "1.prems"(8) have eq: "inner_loop edges todo (butlast stack) = (r, todo')"
        by (simp add: inner_loop.simps)
      from Exhausted have ex: "set (edges ?top) \<inter> (set stack \<union> set todo) = {}"
        by (rule scan_edges_Exhausted)
      have st: "stack = butlast stack @ [?top]" using ne by simp
      have "distinct (butlast stack @ [?top])" using "1.prems"(1) ne by simp
      then have nb: "?top \<notin> set (butlast stack)" by (simp only: distinct_append) auto
      have tin: "?top \<in> set stack" using ne by simp
      have top: "?top \<in> set stack" "?top \<notin> set (butlast stack)" "?top \<in> set nodes" "?top \<notin> set todo"
        using tin "1.prems"(3,4) nb by auto
      have sb: "set stack = insert ?top (set (butlast stack))"
        by (subst st) (simp del: append_butlast_last_id)
      have D: "set nodes - set todo - set (butlast stack) = insert ?top (set nodes - set todo - set stack)"
        using top sb by auto
      have fin: "finished_ok (graph_edges nodes edges) (set nodes - set todo - set (butlast stack))"
        unfolding D
      proof (rule finished_insert[OF "1.prems"(7)])
        show "y \<in> set nodes - set todo - set stack" if "(?top, y) \<in> graph_edges nodes edges" for y
          using that ex by (auto simp: graph_edges_def)
        show "?top \<notin> set nodes - set todo - set stack" using top by simp
      qed
      show ?thesis
      proof (rule "1.IH"(2)[OF ne Exhausted _ _ _ _ _ _ fin eq])
        show "distinct (butlast stack)" using "1.prems"(1) by (rule distinct_butlast)
        show "distinct todo" by fact
        show "set (butlast stack) \<inter> set todo = {}" using "1.prems"(3) by (auto dest: in_set_butlastD)
        show "set (butlast stack) \<subseteq> set nodes" using "1.prems"(4) by (auto dest: in_set_butlastD)
        show "set todo \<subseteq> set nodes" by fact
        show "successively (\<lambda>a b. b \<in> set (edges a)) (butlast stack)"
          using "1.prems"(6) by (subst (asm) st) (simp only: successively_append_iff)
      qed
    qed
  qed
qed

lemma outer_loop_correct:
  assumes "distinct todo" "set todo \<subseteq> set nodes"
    "finished_ok (graph_edges nodes edges) (set nodes - set todo)"
  shows "(case outer_loop edges todo of
            None \<Rightarrow> finished_ok (graph_edges nodes edges) (set nodes)
          | Some c \<Rightarrow> is_cycle nodes edges c)"
  using assms
proof (induction edges todo rule: outer_loop.induct)
  case (1 edges)
  then show ?case by simp
next
  case (2 edges node todo)
  obtain r todo' where eq: "inner_loop edges todo [node] = (r, todo')" by (cases "inner_loop edges todo [node]")
  have D: "set nodes - set todo - set [node] = set nodes - set (node # todo)" by auto
  have res: "(case r of
            None \<Rightarrow> distinct todo' \<and> set todo' \<subseteq> set nodes \<and>
                    finished_ok (graph_edges nodes edges) (set nodes - set todo')
          | Some c \<Rightarrow> is_cycle nodes edges c)"
  proof (rule inner_loop_correct[OF _ _ _ _ _ _ _ eq])
    show "distinct [node]" by simp
    show "distinct todo" using "2.prems"(1) by simp
    show "set [node] \<inter> set todo = {}" using "2.prems"(1) by simp
    show "set [node] \<subseteq> set nodes" using "2.prems"(2) by simp
    show "set todo \<subseteq> set nodes" using "2.prems"(2) by simp
    show "successively (\<lambda>a b. b \<in> set (edges a)) [node]" by simp
    show "finished_ok (graph_edges nodes edges) (set nodes - set todo - set [node])"
      unfolding D using "2.prems"(3) .
  qed
  show ?case
  proof (cases r)
    case None
    with res have t: "distinct todo'" "set todo' \<subseteq> set nodes"
      "finished_ok (graph_edges nodes edges) (set nodes - set todo')" by simp_all
    from None eq have "outer_loop edges (node # todo) = outer_loop edges todo'" by simp
    moreover have "(case outer_loop edges todo' of
            None \<Rightarrow> finished_ok (graph_edges nodes edges) (set nodes)
          | Some c \<Rightarrow> is_cycle nodes edges c)"
      using "2.IH"[OF eq[symmetric] None t] by simp
    ultimately show ?thesis by simp
  next
    case (Some c)
    with res eq show ?thesis by simp
  qed
qed

text \<open>
  C4.  For every node list and every edges function, the cycle checker returns \<open>None\<close>
  exactly when the graph on the node set is acyclic; and a list it returns is a cycle of
  that graph: its nodes are distinct members of the node set, each is followed by one of its
  successors, and the first node (the node met again on the stack) is a successor of the last.
\<close>

theorem find_cycle_correct:
  "(find_cycle nodes edges = None \<longleftrightarrow> acyclic (graph_edges nodes edges)) \<and>
   (\<forall>c. find_cycle nodes edges = Some c \<longrightarrow> is_cycle nodes edges c)"
proof -
  have f0: "finished_ok (graph_edges nodes edges) (set nodes - set (remdups nodes))"
    by (simp add: finished_ok_def)
  have res: "(case find_cycle nodes edges of
            None \<Rightarrow> finished_ok (graph_edges nodes edges) (set nodes)
          | Some c \<Rightarrow> is_cycle nodes edges c)"
    unfolding find_cycle_def by (rule outer_loop_correct[OF _ _ f0]) simp_all
  have a: "acyclic (graph_edges nodes edges)" if "find_cycle nodes edges = None"
  proof -
    from res that have fin: "finished_ok (graph_edges nodes edges) (set nodes)" by simp
    { fix x assume xx: "(x, x) \<in> (graph_edges nodes edges)\<^sup>+"
      then obtain y where "(x, y) \<in> graph_edges nodes edges" by (auto dest: tranclD)
      then have "x \<in> set nodes" by (simp add: graph_edges_def)
      with fin xx have False by (auto simp: finished_ok_def) }
    then show ?thesis by (auto simp: acyclic_def)
  qed
  have b: "is_cycle nodes edges c" if "find_cycle nodes edges = Some c" for c
    using res that by simp
  have "find_cycle nodes edges = None" if "acyclic (graph_edges nodes edges)"
  proof (cases "find_cycle nodes edges")
    case None
    then show ?thesis .
  next
    case (Some c)
    from is_cycle_not_acyclic[OF b[OF Some]] that show ?thesis by simp
  qed
  with a b show ?thesis by blast
qed


definition example_cyclic_edges :: "string \<Rightarrow> string list" where
  "example_cyclic_edges r =
     (if r = ''A'' then [''B''] else if r = ''B'' then [''C''] else if r = ''C'' then [''B''] else [])"

definition example_dag_edges :: "string \<Rightarrow> string list" where
  "example_dag_edges r =
     (if r = ''A'' then [''B'', ''C''] else if r = ''B'' then [''C''] else [])"

lemma example_cyclic_run: "find_cycle [''A'', ''B'', ''C''] example_cyclic_edges = Some [''B'', ''C'']"
  by code_simp

lemma example_dag_run: "find_cycle [''A'', ''B'', ''C''] example_dag_edges = None"
  by code_simp

theorem find_cycle_correct_witness:
  "find_cycle [''A'', ''B'', ''C''] example_cyclic_edges = Some [''B'', ''C'']
   \<and> is_cycle [''A'', ''B'', ''C''] example_cyclic_edges [''B'', ''C'']
   \<and> \<not> acyclic (graph_edges [''A'', ''B'', ''C''] example_cyclic_edges)
   \<and> find_cycle [''A'', ''B'', ''C''] example_dag_edges = None
   \<and> acyclic (graph_edges [''A'', ''B'', ''C''] example_dag_edges)"
  using find_cycle_correct[of "[''A'', ''B'', ''C'']" example_cyclic_edges]
    find_cycle_correct[of "[''A'', ''B'', ''C'']" example_dag_edges]
  by (simp add: example_cyclic_run example_dag_run)


section \<open>expression.py and pyre.py: the expression parser\<close>

text \<open>
  The operations of the Python runtime that the parser calls and that are not defined here:
  arithmetic and comparison of \<open>float\<close> values (IEEE doubles; \<open>'f\<close> is their type), the
  conversions \<open>str(float)\<close>, \<open>float(int)\<close>, \<open>int(float)\<close>, \<open>int(str)\<close>, true division of
  integers, and the \<open>re\<close> module.  An operation that can raise returns \<open>exn + _\<close>.  Every
  theorem below holds for every such runtime.
\<close>

record 'f host =
  float_add :: "'f \<Rightarrow> 'f \<Rightarrow> 'f"
  float_sub :: "'f \<Rightarrow> 'f \<Rightarrow> 'f"
  float_mul :: "'f \<Rightarrow> 'f \<Rightarrow> 'f"
  float_truediv :: "'f \<Rightarrow> 'f \<Rightarrow> exn + 'f"
  float_mod :: "'f \<Rightarrow> 'f \<Rightarrow> exn + 'f"
  float_neg :: "'f \<Rightarrow> 'f"
  float_eq :: "'f \<Rightarrow> 'f \<Rightarrow> bool"
  float_lt :: "'f \<Rightarrow> 'f \<Rightarrow> bool"
  float_le :: "'f \<Rightarrow> 'f \<Rightarrow> bool"
  float_str :: "'f \<Rightarrow> string"
  int_truediv :: "int \<Rightarrow> int \<Rightarrow> exn + 'f"
  float_of_int :: "int \<Rightarrow> exn + 'f"
  int_of_float :: "'f \<Rightarrow> exn + int"
  int_of_str :: "string \<Rightarrow> exn + int"
  re_compile :: "string \<Rightarrow> bool"
  re_match :: "string \<Rightarrow> string \<Rightarrow> exn + bool"
  re_escape :: "string \<Rightarrow> string"

text \<open>
  A value the parser handles: a Python constant (\<open>bool\<close>, \<open>int\<close>, \<open>float\<close>, \<open>str\<close>) or a
  \<open>Node\<close>.  The node constructors carry the attributes their \<open>__init__\<close> stores, the
  \<open>type\<close> attribute included; a \<open>JoinNode\<close> always has type \<open>bool\<close>.
  \<open>BinaryOpNode operation arg1 arg2 type name\<close>, \<open>UnaryOpNode operation arg1 type name\<close>,
  \<open>IfNode predicate if_true if_false type\<close>, \<open>CastNode expression type\<close>,
  \<open>JoinNode left right\<close>, \<open>FunctionNode name external type args\<close>.
\<close>

datatype 'f expr =
    PyBool bool
  | PyInt int
  | PyFloat 'f
  | PyStr string
  | LocalReferenceNode string ty
  | ThisReferenceNode string ty
  | BinaryOpNode string "'f expr" "'f expr" ty string
  | UnaryOpNode string "'f expr" ty string
  | IfNode "'f expr" "'f expr" "'f expr" ty
  | CastNode "'f expr" ty
  | JoinNode "'f expr" "'f expr"
  | FunctionNode string string ty "'f expr list"

fun is_Node :: "'f expr \<Rightarrow> bool" where
  "is_Node (PyBool _) = False"
| "is_Node (PyInt _) = False"
| "is_Node (PyFloat _) = False"
| "is_Node (PyStr _) = False"
| "is_Node _ = True"

text \<open>\<open>arg.type if isinstance(arg, Node) else type(arg)\<close>, as \<open>type_check\<close> and the node
  constructors compute it.\<close>

fun type_of :: "'f expr \<Rightarrow> ty" where
  "type_of (PyBool _) = TBool"
| "type_of (PyInt _) = TInt"
| "type_of (PyFloat _) = TReal"
| "type_of (PyStr _) = TStr"
| "type_of (LocalReferenceNode _ t) = t"
| "type_of (ThisReferenceNode _ t) = t"
| "type_of (BinaryOpNode _ _ _ t _) = t"
| "type_of (UnaryOpNode _ _ t _) = t"
| "type_of (IfNode _ _ _ t) = t"
| "type_of (CastNode _ t) = t"
| "type_of (JoinNode _ _) = TBool"
| "type_of (FunctionNode _ _ t _) = t"

text \<open>The node constructors \<open>BinaryOpNode(operation, arg1, arg2, kind, readable_name)\<close>,
  \<open>UnaryOpNode(operation, arg1)\<close> and \<open>IfNode(predicate, if_true, if_false)\<close>.\<close>

definition mk_BinaryOpNode :: "string \<Rightarrow> 'f expr \<Rightarrow> 'f expr \<Rightarrow> ty option \<Rightarrow> string option \<Rightarrow> 'f expr" where
  "mk_BinaryOpNode operation arg1 arg2 kind readable_name =
     BinaryOpNode operation arg1 arg2
       (case kind of None \<Rightarrow> type_of arg1 | Some k \<Rightarrow> k)
       (case readable_name of None \<Rightarrow> operation | Some n \<Rightarrow> n)"

definition mk_UnaryOpNode :: "string \<Rightarrow> 'f expr \<Rightarrow> 'f expr" where
  "mk_UnaryOpNode operation arg1 = UnaryOpNode operation arg1 (type_of arg1) operation"

definition mk_IfNode :: "'f expr \<Rightarrow> 'f expr \<Rightarrow> 'f expr \<Rightarrow> 'f expr" where
  "mk_IfNode predicate if_true if_false = IfNode predicate if_true if_false (type_of if_true)"

text \<open>
  The Python expression \<open>arg1 <op> arg2\<close> for an arithmetic operator.  When an operand is a
  node, \<open>DefaultOperationsMixin\<close> builds a \<open>BinaryOpNode\<close> with the operands in their order
  (\<open>__add__\<close> for a node on the left, \<open>__radd__\<close> for a constant on the left).  Two constants
  are combined by Python itself.  The last case is not reached: the type check in front of
  every operator admits only two operands of the same numeric type.
\<close>

definition py_arith ::
  "string \<Rightarrow> (int \<Rightarrow> int \<Rightarrow> exn + 'f expr) \<Rightarrow> ('f \<Rightarrow> 'f \<Rightarrow> exn + 'f expr) \<Rightarrow> 'f expr \<Rightarrow> 'f expr \<Rightarrow> exn + 'f expr" where
  "py_arith symbol on_int on_float arg1 arg2 =
     (if is_Node arg1 \<or> is_Node arg2 then Inr (mk_BinaryOpNode symbol arg1 arg2 None None)
      else (case (arg1, arg2) of
              (PyInt x, PyInt y) \<Rightarrow> on_int x y
            | (PyFloat x, PyFloat y) \<Rightarrow> on_float x y
            | _ \<Rightarrow> Inl TypeError))"

text \<open>
  The Python expression \<open>arg1 <cmp> arg2\<close>.  A node on the left builds
  \<open>BinaryOpNode(symbol, arg1, arg2, bool)\<close>.  A constant on the left and a node on the right
  makes Python call the reflected method of the node, which builds the node with the
  operands exchanged and the mirrored symbol.  Two constants of one type are compared.
\<close>

definition py_compare ::
  "string \<Rightarrow> string \<Rightarrow> (bool \<Rightarrow> bool \<Rightarrow> bool) \<Rightarrow> (int \<Rightarrow> int \<Rightarrow> bool) \<Rightarrow> ('f \<Rightarrow> 'f \<Rightarrow> bool) \<Rightarrow>
   (string \<Rightarrow> string \<Rightarrow> bool) \<Rightarrow> 'f expr \<Rightarrow> 'f expr \<Rightarrow> exn + 'f expr" where
  "py_compare symbol reflected on_bool on_int on_float on_str arg1 arg2 =
     (if is_Node arg1 then Inr (mk_BinaryOpNode symbol arg1 arg2 (Some TBool) None)
      else if is_Node arg2 then Inr (mk_BinaryOpNode reflected arg2 arg1 (Some TBool) None)
      else (case (arg1, arg2) of
              (PyBool x, PyBool y) \<Rightarrow> Inr (PyBool (on_bool x y))
            | (PyInt x, PyInt y) \<Rightarrow> Inr (PyBool (on_int x y))
            | (PyFloat x, PyFloat y) \<Rightarrow> Inr (PyBool (on_float x y))
            | (PyStr x, PyStr y) \<Rightarrow> Inr (PyBool (on_str x y))
            | _ \<Rightarrow> Inl TypeError))"

text \<open>
  The decorator \<open>type_check(*combinations)\<close>: the tuple of operand types must be one of the
  combinations, otherwise the call raises "Invalid types for function/operator", which
  names the operator or function and the operand types; only then is the decorated method
  run.
\<close>

definition type_check :: "label \<Rightarrow> ty list list \<Rightarrow> 'f expr list \<Rightarrow> exn + 'f expr \<Rightarrow> exn + 'f expr" where
  "type_check name combinations args func =
     (if map type_of args \<in> set combinations then func
      else Inl (InvalidTypes name (map type_of args)))"

text \<open>A declared external function (\<open>Functions\<close> section), closed over by
  \<open>build_function_node(name, clause)\<close>.\<close>

record function_decl =
  fn_name :: string
  fn_external :: string
  fn_parameters :: "ty list"
  fn_returns :: ty

text \<open>
  \<open>expression.Parser\<close>.  \<open>__init__\<close> replaces a missing \<open>this\<close> by the empty dictionary, so
  the attribute is never \<open>None\<close> afterwards.  \<open>parser_functions\<close> are the external functions
  added by \<open>add_function\<close> under their lower-cased names; the built-in operators and
  functions are the same for every parser.
\<close>

record 'f parser =
  parser_constants :: "(string \<times> 'f expr) list"
  parser_variables :: "(string \<times> ty) list"
  parser_this :: "(string \<times> ty) list option"
  allow_regexp :: bool
  parser_functions :: "(string \<times> function_decl) list"
  host :: "'f host"

definition Parser_init ::
  "'f host \<Rightarrow> (string \<times> 'f expr) list option \<Rightarrow> (string \<times> ty) list option \<Rightarrow>
   (string \<times> ty) list option \<Rightarrow> bool \<Rightarrow> 'f parser" where
  "Parser_init h constants variables this allow =
     \<lparr>parser_constants = (case constants of None \<Rightarrow> [] | Some c \<Rightarrow> c),
      parser_variables = (case variables of None \<Rightarrow> [] | Some v \<Rightarrow> v),
      parser_this = Some (case this of None \<Rightarrow> [] | Some t \<Rightarrow> t),
      allow_regexp = allow,
      parser_functions = [],
      host = h\<rparr>"

definition add_function :: "string \<Rightarrow> function_decl \<Rightarrow> 'f parser \<Rightarrow> 'f parser" where
  "add_function name decl p = p\<lparr>parser_functions := AList.update name decl (parser_functions p)\<rparr>"

text \<open>The operator methods of \<open>Parser\<close>, each with its \<open>type_check\<close> decorator.\<close>

definition operator_add :: "'f parser \<Rightarrow> 'f expr \<Rightarrow> 'f expr \<Rightarrow> exn + 'f expr" where
  "operator_add p arg1 arg2 =
     type_check (OperatorLabel ''+'') [[TReal, TReal], [TInt, TInt]] [arg1, arg2]
       (py_arith ''+'' (\<lambda>x y. Inr (PyInt (x + y))) (\<lambda>x y. Inr (PyFloat (float_add (host p) x y))) arg1 arg2)"

definition operator_sub :: "'f parser \<Rightarrow> 'f expr \<Rightarrow> 'f expr \<Rightarrow> exn + 'f expr" where
  "operator_sub p arg1 arg2 =
     type_check (OperatorLabel ''-'') [[TReal, TReal], [TInt, TInt]] [arg1, arg2]
       (py_arith ''-'' (\<lambda>x y. Inr (PyInt (x - y))) (\<lambda>x y. Inr (PyFloat (float_sub (host p) x y))) arg1 arg2)"

definition operator_mul :: "'f parser \<Rightarrow> 'f expr \<Rightarrow> 'f expr \<Rightarrow> exn + 'f expr" where
  "operator_mul p arg1 arg2 =
     type_check (OperatorLabel ''*'') [[TReal, TReal], [TInt, TInt]] [arg1, arg2]
       (py_arith ''*'' (\<lambda>x y. Inr (PyInt (x * y))) (\<lambda>x y. Inr (PyFloat (float_mul (host p) x y))) arg1 arg2)"

definition operator_div :: "'f parser \<Rightarrow> 'f expr \<Rightarrow> 'f expr \<Rightarrow> exn + 'f expr" where
  "operator_div p arg1 arg2 =
     type_check (OperatorLabel ''/'') [[TReal, TReal], [TInt, TInt]] [arg1, arg2]
       (py_arith ''/''
          (\<lambda>x y. case int_truediv (host p) x y of Inl e \<Rightarrow> Inl e | Inr q \<Rightarrow> Inr (PyFloat q))
          (\<lambda>x y. case float_truediv (host p) x y of Inl e \<Rightarrow> Inl e | Inr q \<Rightarrow> Inr (PyFloat q))
          arg1 arg2)"

definition operator_mod :: "'f parser \<Rightarrow> 'f expr \<Rightarrow> 'f expr \<Rightarrow> exn + 'f expr" where
  "operator_mod p arg1 arg2 =
     type_check (OperatorLabel ''%'') [[TInt, TInt]] [arg1, arg2]
       (py_arith ''%''
          (\<lambda>x y. if y = 0 then Inl ZeroDivisionError else Inr (PyInt (x mod y)))
          (\<lambda>x y. case float_mod (host p) x y of Inl e \<Rightarrow> Inl e | Inr q \<Rightarrow> Inr (PyFloat q))
          arg1 arg2)"

definition comparison_types :: "ty list list" where
  "comparison_types = [[TBool, TBool], [TReal, TReal], [TInt, TInt], [TStr, TStr]]"

definition operator_equ :: "'f parser \<Rightarrow> 'f expr \<Rightarrow> 'f expr \<Rightarrow> exn + 'f expr" where
  "operator_equ p arg1 arg2 =
     type_check (OperatorLabel ''=='') comparison_types [arg1, arg2]
       (py_compare ''='' ''='' (\<lambda>x y. x = y) (\<lambda>x y. x = y) (float_eq (host p)) (\<lambda>x y. x = y) arg1 arg2)"

definition operator_lte :: "'f parser \<Rightarrow> 'f expr \<Rightarrow> 'f expr \<Rightarrow> exn + 'f expr" where
  "operator_lte p arg1 arg2 =
     type_check (OperatorLabel ''<='') comparison_types [arg1, arg2]
       (py_compare ''<='' ''>='' (\<lambda>x y. x \<le> y) (\<lambda>x y. x \<le> y) (float_le (host p)) (\<lambda>x y. x \<le> y) arg1 arg2)"

definition operator_gte :: "'f parser \<Rightarrow> 'f expr \<Rightarrow> 'f expr \<Rightarrow> exn + 'f expr" where
  "operator_gte p arg1 arg2 =
     type_check (OperatorLabel ''>='') comparison_types [arg1, arg2]
       (py_compare ''>='' ''<='' (\<lambda>x y. y \<le> x) (\<lambda>x y. y \<le> x) (\<lambda>x y. float_le (host p) y x) (\<lambda>x y. y \<le> x) arg1 arg2)"

definition operator_neq :: "'f parser \<Rightarrow> 'f expr \<Rightarrow> 'f expr \<Rightarrow> exn + 'f expr" where
  "operator_neq p arg1 arg2 =
     type_check (OperatorLabel ''!='') comparison_types [arg1, arg2]
       (py_compare ''!='' ''!='' (\<lambda>x y. x \<noteq> y) (\<lambda>x y. x \<noteq> y) (\<lambda>x y. \<not> float_eq (host p) x y) (\<lambda>x y. x \<noteq> y) arg1 arg2)"

definition operator_lt :: "'f parser \<Rightarrow> 'f expr \<Rightarrow> 'f expr \<Rightarrow> exn + 'f expr" where
  "operator_lt p arg1 arg2 =
     type_check (OperatorLabel ''<'') comparison_types [arg1, arg2]
       (py_compare ''<'' ''>'' (\<lambda>x y. x < y) (\<lambda>x y. x < y) (float_lt (host p)) (\<lambda>x y. x < y) arg1 arg2)"

definition operator_gt :: "'f parser \<Rightarrow> 'f expr \<Rightarrow> 'f expr \<Rightarrow> exn + 'f expr" where
  "operator_gt p arg1 arg2 =
     type_check (OperatorLabel ''>'') comparison_types [arg1, arg2]
       (py_compare ''>'' ''<'' (\<lambda>x y. y < x) (\<lambda>x y. y < x) (\<lambda>x y. float_lt (host p) y x) (\<lambda>x y. y < x) arg1 arg2)"

definition operator_or :: "'f parser \<Rightarrow> 'f expr \<Rightarrow> 'f expr \<Rightarrow> exn + 'f expr" where
  "operator_or p arg1 arg2 =
     type_check (OperatorLabel ''||'') [[TBool, TBool]] [arg1, arg2]
       (case (arg1, arg2) of
          (PyBool x, PyBool y) \<Rightarrow> Inr (PyBool (x \<or> y))
        | _ \<Rightarrow> Inr (mk_BinaryOpNode ''OR'' arg1 arg2 None None))"

definition operator_and :: "'f parser \<Rightarrow> 'f expr \<Rightarrow> 'f expr \<Rightarrow> exn + 'f expr" where
  "operator_and p arg1 arg2 =
     type_check (OperatorLabel ''&&'') [[TBool, TBool]] [arg1, arg2]
       (case (arg1, arg2) of
          (PyBool x, PyBool y) \<Rightarrow> Inr (PyBool (x \<and> y))
        | _ \<Rightarrow> Inr (mk_BinaryOpNode ''AND'' arg1 arg2 None None))"

text \<open>The bodies of \<open>operator_regexp\<close> and \<open>operator_notregexp\<close> (\<open>found\<close> is
  \<open>is not None\<close> or \<open>is None\<close>).\<close>

definition regexp_body :: "'f parser \<Rightarrow> string \<Rightarrow> (bool \<Rightarrow> bool) \<Rightarrow> 'f expr \<Rightarrow> 'f expr \<Rightarrow> exn + 'f expr" where
  "regexp_body p operation found arg1 arg2 =
     (if \<not> allow_regexp p then Inl RegexpDisabled
      else if (case arg2 of PyStr pattern \<Rightarrow> \<not> re_compile (host p) pattern | _ \<Rightarrow> False) then Inl InvalidRegexp
      else (case (arg1, arg2) of
              (PyStr s, PyStr pattern) \<Rightarrow>
                (case re_match (host p) pattern s of
                   Inl e \<Rightarrow> Inl InvalidRegexp
                 | Inr m \<Rightarrow> Inr (PyBool (found m)))
            | _ \<Rightarrow> Inr (mk_BinaryOpNode operation arg1 arg2 (Some TBool) None)))"

definition operator_regexp :: "'f parser \<Rightarrow> 'f expr \<Rightarrow> 'f expr \<Rightarrow> exn + 'f expr" where
  "operator_regexp p arg1 arg2 =
     type_check (OperatorLabel ''~'') [[TStr, TStr]] [arg1, arg2]
       (regexp_body p ''REGEXP'' (\<lambda>m. m) arg1 arg2)"

definition operator_notregexp :: "'f parser \<Rightarrow> 'f expr \<Rightarrow> 'f expr \<Rightarrow> exn + 'f expr" where
  "operator_notregexp p arg1 arg2 =
     type_check (OperatorLabel ''!~'') [[TStr, TStr]] [arg1, arg2]
       (regexp_body p ''NOT REGEXP'' (\<lambda>m. \<not> m) arg1 arg2)"

text \<open>\<open>s.replace(old, new)\<close>: every occurrence from left to right, without overlap.\<close>

function replace_str :: "string \<Rightarrow> string \<Rightarrow> string \<Rightarrow> string" where
  "replace_str old new s =
     (if old = [] \<or> s = [] then s
      else if take (length old) s = old then new @ replace_str old new (drop (length old) s)
      else hd s # replace_str old new (tl s))"
  by pat_completeness auto

termination
  by (relation "measure (\<lambda>(old, new, s). length s)") (auto simp: neq_Nil_conv)

declare replace_str.simps [simp del]

text \<open>The regular expression \<open>operator_like\<close> builds from a LIKE pattern.\<close>

definition like_pattern :: "'f host \<Rightarrow> string \<Rightarrow> string" where
  "like_pattern h arg2 =
     ''^'' @ replace_str ''_'' ''.'' (replace_str ''%'' ''.*''
        (replace_str [CHR 0x5C, CHR ''_''] ''_'' (replace_str [CHR 0x5C, CHR ''%''] ''%'' (re_escape h arg2)))) @ ''$''"

definition like_body :: "'f parser \<Rightarrow> string \<Rightarrow> (bool \<Rightarrow> bool) \<Rightarrow> 'f expr \<Rightarrow> 'f expr \<Rightarrow> exn + 'f expr" where
  "like_body p operation found arg1 arg2 =
     (case (arg1, arg2) of
        (PyStr s, PyStr pattern) \<Rightarrow>
          (case re_match (host p) (like_pattern (host p) pattern) s of
             Inl e \<Rightarrow> Inl e
           | Inr m \<Rightarrow> Inr (PyBool (found m)))
      | _ \<Rightarrow> Inr (mk_BinaryOpNode operation arg1 arg2 (Some TBool) None))"

definition operator_like :: "'f parser \<Rightarrow> 'f expr \<Rightarrow> 'f expr \<Rightarrow> exn + 'f expr" where
  "operator_like p arg1 arg2 =
     type_check (OperatorLabel ''like'') [[TStr, TStr]] [arg1, arg2]
       (like_body p ''LIKE'' (\<lambda>m. m) arg1 arg2)"

definition operator_unlike :: "'f parser \<Rightarrow> 'f expr \<Rightarrow> 'f expr \<Rightarrow> exn + 'f expr" where
  "operator_unlike p arg1 arg2 =
     type_check (OperatorLabel ''unlike'') [[TStr, TStr]] [arg1, arg2]
       (like_body p ''NOT LIKE'' (\<lambda>m. \<not> m) arg1 arg2)"

definition operator_join :: "'f parser \<Rightarrow> 'f expr \<Rightarrow> 'f expr \<Rightarrow> exn + 'f expr" where
  "operator_join p arg1 arg2 =
     type_check (OperatorLabel ''and'') [[TBool, TBool]] [arg1, arg2]
       (if parser_this p = None then Inl JoinOutsideMatch else Inr (JoinNode arg1 arg2))"

definition operator_concat :: "'f parser \<Rightarrow> 'f expr \<Rightarrow> 'f expr \<Rightarrow> exn + 'f expr" where
  "operator_concat p arg1 arg2 =
     type_check (OperatorLabel ''.'') [[TStr, TStr]] [arg1, arg2]
       (case (arg1, arg2) of
          (PyStr x, PyStr y) \<Rightarrow> Inr (PyStr (x @ y))
        | _ \<Rightarrow> Inr (mk_BinaryOpNode ''||'' arg1 arg2 None (Some ''.'')))"

definition operator_pos :: "'f parser \<Rightarrow> 'f expr \<Rightarrow> exn + 'f expr" where
  "operator_pos p arg1 = type_check (OperatorLabel ''+'') [[TReal], [TInt]] [arg1] (Inr arg1)"

definition operator_neg :: "'f parser \<Rightarrow> 'f expr \<Rightarrow> exn + 'f expr" where
  "operator_neg p arg1 =
     type_check (OperatorLabel ''-'') [[TReal], [TInt]] [arg1]
       (case arg1 of
          PyInt x \<Rightarrow> Inr (PyInt (- x))
        | PyFloat x \<Rightarrow> Inr (PyFloat (float_neg (host p) x))
        | _ \<Rightarrow> Inr (mk_UnaryOpNode ''neg'' arg1))"

definition operator_not :: "'f parser \<Rightarrow> 'f expr \<Rightarrow> exn + 'f expr" where
  "operator_not p arg1 =
     type_check (OperatorLabel ''not'') [[TBool]] [arg1]
       (case arg1 of
          PyBool x \<Rightarrow> Inr (PyBool (\<not> x))
        | _ \<Rightarrow> Inr (mk_UnaryOpNode ''NOT'' arg1))"

text \<open>The built-in functions.  A function receives its arguments as a list; the type check
  fixes its length before the body reads it.\<close>

definition function_string_of_bool :: "'f parser \<Rightarrow> 'f expr list \<Rightarrow> exn + 'f expr" where
  "function_string_of_bool p args =
     type_check (FunctionLabel ''string_of_bool'') [[TBool]] args
       (case hd args of
          PyBool x \<Rightarrow> Inr (PyStr (if x then ''True'' else ''False''))
        | arg1 \<Rightarrow> Inr (CastNode arg1 TStr))"

definition function_string_of_real :: "'f parser \<Rightarrow> 'f expr list \<Rightarrow> exn + 'f expr" where
  "function_string_of_real p args =
     type_check (FunctionLabel ''string_of_real'') [[TReal]] args
       (case hd args of
          PyFloat x \<Rightarrow> Inr (PyStr (float_str (host p) x))
        | arg1 \<Rightarrow> Inr (CastNode arg1 TStr))"

definition function_string_of_int :: "'f parser \<Rightarrow> 'f expr list \<Rightarrow> exn + 'f expr" where
  "function_string_of_int p args =
     type_check (FunctionLabel ''string_of_int'') [[TInt]] args
       (case hd args of
          PyInt x \<Rightarrow> Inr (PyStr (str_int x))
        | arg1 \<Rightarrow> Inr (CastNode arg1 TStr))"

definition function_real_of_int :: "'f parser \<Rightarrow> 'f expr list \<Rightarrow> exn + 'f expr" where
  "function_real_of_int p args =
     type_check (FunctionLabel ''real_of_int'') [[TInt]] args
       (case hd args of
          PyInt x \<Rightarrow> (case float_of_int (host p) x of Inl e \<Rightarrow> Inl e | Inr q \<Rightarrow> Inr (PyFloat q))
        | arg1 \<Rightarrow> Inr (CastNode arg1 TReal))"

definition function_int_of_real :: "'f parser \<Rightarrow> 'f expr list \<Rightarrow> exn + 'f expr" where
  "function_int_of_real p args =
     type_check (FunctionLabel ''int_of_real'') [[TReal]] args
       (case hd args of
          PyFloat x \<Rightarrow> (case int_of_float (host p) x of Inl e \<Rightarrow> Inl e | Inr i \<Rightarrow> Inr (PyInt i))
        | arg1 \<Rightarrow> Inr (CastNode arg1 TInt))"

definition function_int_of_string :: "'f parser \<Rightarrow> 'f expr list \<Rightarrow> exn + 'f expr" where
  "function_int_of_string p args =
     type_check (FunctionLabel ''int_of_string'') [[TStr]] args
       (case hd args of
          PyStr x \<Rightarrow> (case int_of_str (host p) x of Inl e \<Rightarrow> Inl e | Inr i \<Rightarrow> Inr (PyInt i))
        | arg1 \<Rightarrow> Inr (CastNode arg1 TInt))"

definition function_if :: "'f parser \<Rightarrow> 'f expr list \<Rightarrow> exn + 'f expr" where
  "function_if p args =
     type_check (FunctionLabel ''if'')
       [[TBool, TBool, TBool], [TBool, TReal, TReal], [TBool, TInt, TInt], [TBool, TStr, TStr]] args
       (case args ! 0 of
          PyBool x \<Rightarrow> Inr (if x then args ! 1 else args ! 2)
        | predicate \<Rightarrow> Inr (mk_IfNode predicate (args ! 1) (args ! 2)))"

text \<open>\<open>build_function_node(name, clause)\<close> of giles.py, the callback of an external
  function.\<close>

definition build_function_node :: "function_decl \<Rightarrow> 'f expr list \<Rightarrow> exn + 'f expr" where
  "build_function_node clause args =
     (if length args \<noteq> length (fn_parameters clause) then Inl (InvalidArgumentCount (fn_name clause))
      else if map type_of args \<noteq> fn_parameters clause then Inl (InvalidArgumentTypes (fn_name clause))
      else Inr (FunctionNode (fn_name clause) (fn_external clause) (fn_returns clause) args))"

text \<open>
  The operator and function tables \<open>Parser.__init__\<close> of pyre.py fills from the decorated
  methods: names, precedences (all binary operators associate to the left, all unary ones
  to the right) and callbacks.
\<close>

datatype binop = OpAdd | OpSub | OpMul | OpDiv | OpMod | OpEqu | OpLte | OpGte | OpNeq | OpLt | OpGt
  | OpOr | OpAnd | OpRegexp | OpNotRegexp | OpLike | OpUnlike | OpJoin | OpConcat

datatype unop = OpPos | OpNeg | OpNot

datatype builtin = StringOfBool | StringOfReal | StringOfInt | RealOfInt | IntOfReal | IntOfString | FunctionIf

datatype func = Builtin builtin | External function_decl

definition binary_operators :: "(string \<times> binop) list" where
  "binary_operators =
     [(''+'', OpAdd), (''-'', OpSub), (''*'', OpMul), (''/'', OpDiv), (''%'', OpMod),
      (''=='', OpEqu), (''<='', OpLte), (''>='', OpGte), (''!='', OpNeq), (''<'', OpLt), (''>'', OpGt),
      (''||'', OpOr), (''&&'', OpAnd), (''~'', OpRegexp), (''!~'', OpNotRegexp),
      (''like'', OpLike), (''unlike'', OpUnlike), (''and'', OpJoin), (''.'', OpConcat)]"

definition unary_operators :: "(string \<times> unop) list" where
  "unary_operators = [(''+'', OpPos), (''-'', OpNeg), (''not'', OpNot)]"

definition builtin_functions :: "(string \<times> builtin) list" where
  "builtin_functions =
     [(''string_of_bool'', StringOfBool), (''string_of_real'', StringOfReal),
      (''string_of_int'', StringOfInt), (''real_of_int'', RealOfInt), (''int_of_real'', IntOfReal),
      (''int_of_string'', IntOfString), (''if'', FunctionIf)]"

fun binary_name :: "binop \<Rightarrow> string" where
  "binary_name OpAdd = ''+''" | "binary_name OpSub = ''-''" | "binary_name OpMul = ''*''"
| "binary_name OpDiv = ''/''" | "binary_name OpMod = ''%''" | "binary_name OpEqu = ''==''"
| "binary_name OpLte = ''<=''" | "binary_name OpGte = ''>=''" | "binary_name OpNeq = ''!=''"
| "binary_name OpLt = ''<''" | "binary_name OpGt = ''>''" | "binary_name OpOr = ''||''"
| "binary_name OpAnd = ''&&''" | "binary_name OpRegexp = ''~''" | "binary_name OpNotRegexp = ''!~''"
| "binary_name OpLike = ''like''" | "binary_name OpUnlike = ''unlike''" | "binary_name OpJoin = ''and''"
| "binary_name OpConcat = ''.''"

fun unary_name :: "unop \<Rightarrow> string" where
  "unary_name OpPos = ''+''" | "unary_name OpNeg = ''-''" | "unary_name OpNot = ''not''"

fun binary_precedence :: "binop \<Rightarrow> nat" where
  "binary_precedence OpAnd = 40"
| "binary_precedence OpOr = 30"
| "binary_precedence OpMul = 20" | "binary_precedence OpDiv = 20" | "binary_precedence OpMod = 20"
| "binary_precedence OpConcat = 20"
| "binary_precedence OpAdd = 10" | "binary_precedence OpSub = 10"
| "binary_precedence OpJoin = 0"
| "binary_precedence _ = 5"

datatype operator = UnaryOperator unop | BinaryOperator binop

fun precedence :: "operator \<Rightarrow> nat" where
  "precedence (UnaryOperator u) = 98"
| "precedence (BinaryOperator b) = binary_precedence b"

fun left_associative :: "operator \<Rightarrow> bool" where
  "left_associative (UnaryOperator u) = False"
| "left_associative (BinaryOperator b) = True"

fun operator_name :: "operator \<Rightarrow> string" where
  "operator_name (UnaryOperator u) = unary_name u"
| "operator_name (BinaryOperator b) = binary_name b"

fun call_binary :: "'f parser \<Rightarrow> binop \<Rightarrow> 'f expr \<Rightarrow> 'f expr \<Rightarrow> exn + 'f expr" where
  "call_binary p OpAdd = operator_add p" | "call_binary p OpSub = operator_sub p"
| "call_binary p OpMul = operator_mul p" | "call_binary p OpDiv = operator_div p"
| "call_binary p OpMod = operator_mod p" | "call_binary p OpEqu = operator_equ p"
| "call_binary p OpLte = operator_lte p" | "call_binary p OpGte = operator_gte p"
| "call_binary p OpNeq = operator_neq p" | "call_binary p OpLt = operator_lt p"
| "call_binary p OpGt = operator_gt p" | "call_binary p OpOr = operator_or p"
| "call_binary p OpAnd = operator_and p" | "call_binary p OpRegexp = operator_regexp p"
| "call_binary p OpNotRegexp = operator_notregexp p" | "call_binary p OpLike = operator_like p"
| "call_binary p OpUnlike = operator_unlike p" | "call_binary p OpJoin = operator_join p"
| "call_binary p OpConcat = operator_concat p"

fun call_unary :: "'f parser \<Rightarrow> unop \<Rightarrow> 'f expr \<Rightarrow> exn + 'f expr" where
  "call_unary p OpPos = operator_pos p"
| "call_unary p OpNeg = operator_neg p"
| "call_unary p OpNot = operator_not p"

fun call_builtin :: "'f parser \<Rightarrow> builtin \<Rightarrow> 'f expr list \<Rightarrow> exn + 'f expr" where
  "call_builtin p StringOfBool = function_string_of_bool p"
| "call_builtin p StringOfReal = function_string_of_real p"
| "call_builtin p StringOfInt = function_string_of_int p"
| "call_builtin p RealOfInt = function_real_of_int p"
| "call_builtin p IntOfReal = function_int_of_real p"
| "call_builtin p IntOfString = function_int_of_string p"
| "call_builtin p FunctionIf = function_if p"

fun call_function :: "'f parser \<Rightarrow> func \<Rightarrow> 'f expr list \<Rightarrow> exn + 'f expr" where
  "call_function p (Builtin b) args = call_builtin p b args"
| "call_function p (External clause) args = build_function_node clause args"

text \<open>
  An entry of the parser's \<open>output\<close> list: an operand, an operator, or a
  \<open>FunctionInvocation\<close> (function, line, argcount).
\<close>

datatype 'f out_item = Operand "'f expr" | Operator operator | Invocation func nat nat

text \<open>
  \<open>Parser.evaluate(stack, line)\<close>.  The Python list is popped at its end; here the list is
  held with its top first.  The result is the value and the stack that is left.
  \<open>evaluate_args\<close> is the list comprehension of \<open>FunctionInvocation.__call__\<close>, the values in
  the order they are popped.  \<open>stack.pop()\<close> on an empty list raises \<open>IndexError\<close>.
\<close>

function evaluate :: "'f parser \<Rightarrow> nat \<Rightarrow> 'f out_item list \<Rightarrow> exn + ('f expr \<times> 'f out_item list)"
  and evaluate_args :: "'f parser \<Rightarrow> nat \<Rightarrow> nat \<Rightarrow> 'f out_item list \<Rightarrow> exn + ('f expr list \<times> 'f out_item list)"
  where
  "evaluate p line [] = Inl IndexError"
| "evaluate p line (Operator (UnaryOperator u) # stack) =
     (if length stack < 1 then Inl (MissingOperandException (unary_name u) line)
      else (case evaluate p line stack of
              Inl e \<Rightarrow> Inl e
            | Inr (arg1, stack1) \<Rightarrow>
                (case call_unary p u arg1 of
                   Inl e \<Rightarrow> Inl e
                 | Inr v \<Rightarrow> Inr (v, stack1))))"
| "evaluate p line (Operator (BinaryOperator b) # stack) =
     (if length stack < 2 then Inl (MissingOperandException (binary_name b) line)
      else (case evaluate p line stack of
              Inl e \<Rightarrow> Inl e
            | Inr (arg2, stack2) \<Rightarrow>
                (case evaluate p line stack2 of
                   Inl e \<Rightarrow> Inl e
                 | Inr (arg1, stack1) \<Rightarrow>
                     (case call_binary p b arg1 arg2 of
                        Inl e \<Rightarrow> Inl e
                      | Inr v \<Rightarrow> Inr (v, stack1)))))"
| "evaluate p line (Invocation f fline argcount # stack) =
     (case evaluate_args p fline argcount stack of
        Inl e \<Rightarrow> Inl e
      | Inr (args, stack1) \<Rightarrow>
          (case call_function p f (rev args) of
             Inl e \<Rightarrow> Inl e
           | Inr v \<Rightarrow> Inr (v, stack1)))"
| "evaluate p line (Operand v # stack) = Inr (v, stack)"
| "evaluate_args p line 0 stack = Inr ([], stack)"
| "evaluate_args p line (Suc n) stack =
     (case evaluate p line stack of
        Inl e \<Rightarrow> Inl e
      | Inr (v, stack1) \<Rightarrow>
          (case evaluate_args p line n stack1 of
             Inl e \<Rightarrow> Inl e
           | Inr (vs, stack2) \<Rightarrow> Inr (v # vs, stack2)))"
  by pat_completeness auto

lemma evaluate_shorter_dom:
  "evaluate_evaluate_args_dom (Inl (p, line, stack)) \<Longrightarrow>
     evaluate p line stack = Inr (v, rest) \<Longrightarrow> length rest < length stack"
  "evaluate_evaluate_args_dom (Inr (p, line, n, stack)) \<Longrightarrow>
     evaluate_args p line n stack = Inr (vs, rest) \<Longrightarrow> length rest \<le> length stack"
proof (induction p line stack and p line n stack arbitrary: v rest and vs rest rule: evaluate_evaluate_args.pinduct)
  case (1 p line)
  then show ?case by (simp add: evaluate.psimps)
next
  case (2 p line u stack)
  from 2(1,3) obtain arg1 stack1 where a: "evaluate p line stack = Inr (arg1, stack1)" and "rest = stack1"
    by (auto simp: evaluate.psimps split: if_splits sum.splits)
  moreover from 2(1,3) have "\<not> length stack < 1" by (auto simp: evaluate.psimps split: if_splits)
  ultimately show ?case using 2(2)[OF _ a] by simp
next
  case (3 p line b stack)
  from 3(1,4) have n2: "\<not> length stack < 2" by (auto simp: evaluate.psimps split: if_splits)
  from 3(1,4) n2 obtain arg2 stack2 arg1 stack1 where a: "evaluate p line stack = Inr (arg2, stack2)"
    and b: "evaluate p line stack2 = Inr (arg1, stack1)" and "rest = stack1"
    by (auto simp: evaluate.psimps split: sum.splits)
  then show ?case using 3(2)[OF n2 a] 3(3)[OF n2 a refl b] by simp
next
  case (4 p line f fline argcount stack)
  from 4(1,3) obtain args where a: "evaluate_args p fline argcount stack = Inr (args, rest)"
    by (auto simp: evaluate.psimps split: sum.splits)
  then show ?case using 4(2)[OF a] by simp
next
  case (5 p line v stack)
  then show ?case by (simp add: evaluate.psimps)
next
  case (6 p line stack)
  then show ?case by (simp add: evaluate_args.psimps)
next
  case (7 p line n stack)
  from 7(1,4) obtain v stack1 vs' where a: "evaluate p line stack = Inr (v, stack1)"
    and b: "evaluate_args p line n stack1 = Inr (vs', rest)"
    by (auto simp: evaluate_args.psimps split: sum.splits)
  then show ?case using 7(2)[OF a] 7(3)[OF a refl b] by simp
qed

termination evaluate
proof (relation "measures [\<lambda>x. case x of Inl (p, line, stack) \<Rightarrow> length stack | Inr (p, line, n, stack) \<Rightarrow> length stack,
                            \<lambda>x. case x of Inl (p, line, stack) \<Rightarrow> 0 | Inr (p, line, n, stack) \<Rightarrow> Suc n]", goal_cases)
  case 1
  then show ?case by simp
next
  case (2 p line u stack)
  then show ?case by simp
next
  case (3 p line b stack)
  then show ?case by simp
next
  case (4 p line b stack x xa y)
  then show ?case using evaluate_shorter_dom(1)[of p line stack xa y] by simp
next
  case (5 p line f fline argcount stack)
  then show ?case by simp
next
  case (6 p line n stack)
  then show ?case by simp
next
  case (7 p line n stack x xa y)
  then show ?case using evaluate_shorter_dom(1)[of p line stack xa y] by simp
qed

text \<open>
  The token stream: the \<open>Token\<close> subclasses of pyre.py, and any other object (a constant or a
  reference node made by the tokenizer) as \<open>Value\<close>.
\<close>

datatype 'f token =
    NewlineToken
  | FunctionToken string
  | ArgumentSeparatorToken
  | OperatorToken string
  | OpenParenToken
  | CloseParenToken
  | Value "'f expr"

text \<open>What \<open>Parser.parse\<close> keeps on its operator stack.\<close>

datatype stack_item = StackOperator operator | StackInvocation func nat nat | StackOpenParen

text \<open>\<open>self.functions[token.name]\<close>: the name is a caseless string; an external function
  added later replaces a built-in one of the same name.\<close>

definition lookup_function :: "'f parser \<Rightarrow> string \<Rightarrow> func option" where
  "lookup_function p name =
     (case map_of (parser_functions p) (lower name) of
        Some clause \<Rightarrow> Some (External clause)
      | None \<Rightarrow> map_option Builtin (map_of builtin_functions (lower name)))"

text \<open>The three \<open>while\<close> loops of \<open>parse\<close> that move stack entries to the output.\<close>

fun pop_to_paren :: "'f out_item list \<Rightarrow> stack_item list \<Rightarrow> 'f out_item list \<times> stack_item list" where
  "pop_to_paren output [] = (output, [])"
| "pop_to_paren output (StackOpenParen # stack) = (output, StackOpenParen # stack)"
| "pop_to_paren output (StackOperator o2 # stack) = pop_to_paren (output @ [Operator o2]) stack"
| "pop_to_paren output (StackInvocation f l n # stack) = pop_to_paren (output @ [Invocation f l n]) stack"

fun pop_operators :: "operator \<Rightarrow> 'f out_item list \<Rightarrow> stack_item list \<Rightarrow> 'f out_item list \<times> stack_item list" where
  "pop_operators o1 output (StackOperator o2 # stack) =
     (if (left_associative o1 \<and> precedence o1 = precedence o2) \<or> precedence o1 < precedence o2
      then pop_operators o1 (output @ [Operator o2]) stack
      else (output, StackOperator o2 # stack))"
| "pop_operators o1 output stack = (output, stack)"

fun drain_stack :: "nat \<Rightarrow> 'f out_item list \<Rightarrow> stack_item list \<Rightarrow> exn + 'f out_item list" where
  "drain_stack line output [] = Inr output"
| "drain_stack line output (StackOpenParen # stack) = Inl (MismatchedParenthesesException line)"
| "drain_stack line output (StackOperator o2 # stack) = drain_stack line (output @ [Operator o2]) stack"
| "drain_stack line output (StackInvocation f l n # stack) = drain_stack line (output @ [Invocation f l n]) stack"

fun is_value :: "'f token \<Rightarrow> bool" where
  "is_value (Value v) = True"
| "is_value _ = False"

fun is_open_paren :: "'f token \<Rightarrow> bool" where
  "is_open_paren OpenParenToken = True"
| "is_open_paren _ = False"

fun is_operator_token :: "'f token \<Rightarrow> bool" where
  "is_operator_token (OperatorToken name) = True"
| "is_operator_token _ = False"

fun is_separator :: "'f token \<Rightarrow> bool" where
  "is_separator ArgumentSeparatorToken = True"
| "is_separator _ = False"

text \<open>
  One iteration of \<open>for token in iter(tokenizer)\<close>, from the state \<open>line\<close>, \<open>last_token\<close>,
  \<open>output\<close>, \<open>stack\<close> (top first).  \<open>isinstance(last_token, Operator)\<close> is never true of a
  token, so those tests are left out.
\<close>

fun parse_token ::
  "'f parser \<Rightarrow> 'f token \<Rightarrow> nat \<Rightarrow> 'f token option \<Rightarrow> 'f out_item list \<Rightarrow> stack_item list \<Rightarrow>
   exn + (nat \<times> 'f out_item list \<times> stack_item list)" where
  "parse_token p NewlineToken line last_token output stack = Inr (line + 1, output, stack)"
| "parse_token p (FunctionToken name) line last_token output stack =
     (case lookup_function p name of
        None \<Rightarrow> Inl (UnknownFunctionException name line)
      | Some f \<Rightarrow> Inr (line, output, StackInvocation f line 0 # stack))"
| "parse_token p ArgumentSeparatorToken line last_token output stack =
     (if (case last_token of None \<Rightarrow> True | Some t \<Rightarrow> is_open_paren t)
      then Inl (MismatchedParenthesesException line)
      else (case pop_to_paren output stack of
              (output1, paren # StackInvocation f l n # stack1) \<Rightarrow>
                 Inr (line, output1, paren # StackInvocation f l (if n = 0 then 2 else n + 1) # stack1)
            | _ \<Rightarrow> Inl (MismatchedParenthesesException line)))"
| "parse_token p (OperatorToken name) line last_token output stack =
     (case (if (case last_token of None \<Rightarrow> True | Some t \<Rightarrow> is_operator_token t \<or> is_open_paren t)
            then map_option UnaryOperator (map_of unary_operators (lower name))
            else map_option BinaryOperator (map_of binary_operators (lower name))) of
        None \<Rightarrow> Inl (UnknownOperatorException name line)
      | Some o1 \<Rightarrow>
          (case pop_operators o1 output stack of
             (output1, stack1) \<Rightarrow> Inr (line, output1, StackOperator o1 # stack1)))"
| "parse_token p OpenParenToken line last_token output stack = Inr (line, output, StackOpenParen # stack)"
| "parse_token p CloseParenToken line last_token output stack =
     (if (case last_token of None \<Rightarrow> False | Some t \<Rightarrow> is_separator t)
      then Inl (MismatchedParenthesesException line)
      else (case pop_to_paren output stack of
              (output1, []) \<Rightarrow> Inl (MismatchedParenthesesException line)
            | (output1, paren # StackInvocation f l n # stack1) \<Rightarrow>
                 Inr (line,
                      output1 @ [Invocation f l
                         (if \<not> (case last_token of None \<Rightarrow> False | Some t \<Rightarrow> is_open_paren t) \<and> n = 0
                          then 1 else n)],
                      stack1)
            | (output1, paren # stack1) \<Rightarrow> Inr (line, output1, stack1)))"
| "parse_token p (Value v) line last_token output stack =
     (if (case last_token of None \<Rightarrow> False | Some t \<Rightarrow> is_value t)
      then Inl ExtraInputException
      else Inr (line, output @ [Operand v], stack))"

fun parse_tokens ::
  "'f parser \<Rightarrow> 'f token list \<Rightarrow> nat \<Rightarrow> 'f token option \<Rightarrow> 'f out_item list \<Rightarrow> stack_item list \<Rightarrow>
   exn + (nat \<times> 'f out_item list \<times> stack_item list)" where
  "parse_tokens p [] line last_token output stack = Inr (line, output, stack)"
| "parse_tokens p (token # tokens) line last_token output stack =
     (case parse_token p token line last_token output stack of
        Inl e \<Rightarrow> Inl e
      | Inr (line1, output1, stack1) \<Rightarrow> parse_tokens p tokens line1 (Some token) output1 stack1)"

text \<open>\<open>Parser.parse(tokenizer)\<close>.\<close>

definition parse :: "'f parser \<Rightarrow> 'f token list \<Rightarrow> exn + 'f expr" where
  "parse p tokenizer =
     (case parse_tokens p tokenizer 1 None [] [] of
        Inl e \<Rightarrow> Inl e
      | Inr (line, output, stack) \<Rightarrow>
          (case drain_stack line output stack of
             Inl e \<Rightarrow> Inl e
           | Inr output1 \<Rightarrow>
               (case evaluate p line (rev output1) of
                  Inl e \<Rightarrow> Inl e
                | Inr (result, rest) \<Rightarrow> if rest \<noteq> [] then Inl ExtraInputException else Inr result)))"










text \<open>
  The mathematical value of an expression over Boolean, integer and string constants:
  addition, subtraction, multiplication and remainder (sign of the divisor) of integers, the
  order and equality of each type, conjunction, disjunction and negation, concatenation, and
  the conditional.  \<open>postfix\<close> is the output list the parser evaluates for the expression.
\<close>

datatype mval = MBool bool | MInt int | MStr string

fun literal :: "mval \<Rightarrow> 'f expr" where
  "literal (MBool b) = PyBool b"
| "literal (MInt i) = PyInt i"
| "literal (MStr s) = PyStr s"

datatype cexpr = CLit mval | CUnary unop cexpr | CBinary binop cexpr cexpr | CIf cexpr cexpr cexpr







text \<open>
  The token stream of an expression written with all its parentheses: \<open>(op e)\<close>,
  \<open>(e1 op e2)\<close> and \<open>if(c, t, e)\<close>.
\<close>

fun tokens :: "cexpr \<Rightarrow> 'f token list" where
  "tokens (CLit m) = [Value (literal m)]"
| "tokens (CUnary u e) = [OpenParenToken, OperatorToken (unary_name u)] @ tokens e @ [CloseParenToken]"
| "tokens (CBinary b e1 e2) =
     [OpenParenToken] @ tokens e1 @ [OperatorToken (binary_name b)] @ tokens e2 @ [CloseParenToken]"
| "tokens (CIf c t e) =
     [FunctionToken ''if'', OpenParenToken] @ tokens c @ [ArgumentSeparatorToken] @ tokens t @
     [ArgumentSeparatorToken] @ tokens e @ [CloseParenToken]"








subsection \<open>Typing of operators and functions\<close>


lemma type_check_reject:
  "map type_of args \<notin> set combinations \<Longrightarrow>
     type_check name combinations args func = Inl (InvalidTypes name (map type_of args))"
  by (simp add: type_check_def)

























lemma sum_case_Inr:
  "(case x of Inl e \<Rightarrow> Inl e | Inr y \<Rightarrow> g y) = Inr r \<longleftrightarrow> (\<exists>y. x = Inr y \<and> g y = Inr r)"
  by (cases x) auto

lemma evaluate_unary_Inr:
  "evaluate p line (Operator (UnaryOperator u) # stack) = Inr (v, rest) \<longleftrightarrow>
     \<not> length stack < 1 \<and>
     (\<exists>arg1. evaluate p line stack = Inr (arg1, rest) \<and> call_unary p u arg1 = Inr v)"
  by (simp add: sum_case_Inr split_paired_Ex)

lemma evaluate_binary_Inr:
  "evaluate p line (Operator (BinaryOperator b) # stack) = Inr (v, rest) \<longleftrightarrow>
     \<not> length stack < 2 \<and>
     (\<exists>arg1 arg2 stack2.
        evaluate p line stack = Inr (arg2, stack2) \<and> evaluate p line stack2 = Inr (arg1, rest) \<and>
        call_binary p b arg1 arg2 = Inr v)"
  by (simp add: sum_case_Inr split_paired_Ex) metis

lemma evaluate_invocation_Inr:
  "evaluate p line (Invocation f fline argcount # stack) = Inr (v, rest) \<longleftrightarrow>
     (\<exists>args. evaluate_args p fline argcount stack = Inr (args, rest) \<and>
        call_function p f (rev args) = Inr v)"
  by (simp add: sum_case_Inr split_paired_Ex)

lemma evaluate_args_Suc_Inr:
  "evaluate_args p line (Suc n) stack = Inr (vs, rest) \<longleftrightarrow>
     (\<exists>v stack1 vs1. evaluate p line stack = Inr (v, stack1) \<and>
        evaluate_args p line n stack1 = Inr (vs1, rest) \<and> vs = v # vs1)"
  by (simp add: sum_case_Inr split_paired_Ex) metis

lemma evaluate_shorter_both:
  "(\<forall>v rest. evaluate p line stack = Inr (v, rest) \<longrightarrow> length rest < length stack)"
  "(\<forall>vs rest. evaluate_args p line2 n stack2 = Inr (vs, rest) \<longrightarrow> length rest \<le> length stack2)"
proof (induction p line stack and p line2 n stack2 rule: evaluate_evaluate_args.induct)
  case (1 p line)
  then show ?case by simp
next
  case (2 p line u stack)
  then show ?case unfolding evaluate_unary_Inr by fastforce
next
  case (3 p line b stack)
  show ?case unfolding evaluate_binary_Inr
  proof (intro allI impI, elim conjE exE)
    fix v rest arg1 arg2 stack2
    assume n2: "\<not> length stack < 2" and a: "evaluate p line stack = Inr (arg2, stack2)"
      and b: "evaluate p line stack2 = Inr (arg1, rest)"
    from 3(1)[OF n2] a have "length stack2 < length stack" by blast
    moreover from 3(2)[OF n2 a refl] b have "length rest < length stack2" by blast
    ultimately show "length rest < length (Operator (BinaryOperator b) # stack)" by simp
  qed
next
  case (4 p line f fline argcount stack)
  then show ?case unfolding evaluate_invocation_Inr by fastforce
next
  case (5 p line v stack)
  then show ?case by simp
next
  case (6 p line stack)
  then show ?case by simp
next
  case (7 p line n stack)
  show ?case unfolding evaluate_args_Suc_Inr
  proof (intro allI impI, elim conjE exE)
    fix vs rest v stack1 vs1
    assume a: "evaluate p line stack = Inr (v, stack1)"
      and b: "evaluate_args p line n stack1 = Inr (vs1, rest)"
    from 7(1) a have "length stack1 < length stack" by blast
    moreover from 7(2)[OF a refl] b have "length rest \<le> length stack1" by blast
    ultimately show "length rest \<le> length stack" by simp
  qed
qed

lemma evaluate_shorter:
  "evaluate p line stack = Inr (v, rest) \<Longrightarrow> length rest < length stack"
  using evaluate_shorter_both(1) by blast

subsection \<open>Constant expressions fold to constants\<close>



















subsection \<open>The value of a constant expression\<close>







subsection \<open>The parser on a fully parenthesised expression\<close>


lemma last_tokens:
  "last (tokens e :: 'f token list) = CloseParenToken \<or> (\<exists>v. last (tokens e :: 'f token list) = Value v)"
  by (cases e) auto











subsection \<open>Claim C1\<close>




subsection \<open>Claim C2\<close>




subsection \<open>Claim C3\<close>

text \<open>
  C3 (the code departs from the claim).  The claim: outside any match, where no fact is
  current, \<open>and\<close> in an expression is an error.  \<open>operator_join\<close> raises when
  \<open>parser.this is None\<close>, but \<open>Parser.__init__\<close> has replaced a missing \<open>this\<close> by the empty
  dictionary, so the test never holds: for a parser made without \<open>this\<close>, as giles.py makes
  one for a constant, a parameter or the final \<open>When\<close> of a rule, \<open>true and false\<close> parses to a
  \<open>JoinNode\<close>.
\<close>

theorem join_outside_match:
  "parse (Parser_init h constants variables None allow)
     [Value (PyBool True), OperatorToken ''and'', Value (PyBool False)] =
   Inr (JoinNode (PyBool True) (PyBool False))"
  by (simp add: parse_def Parser_init_def operator_join_def type_check_def
      lower_def lower_char_def binary_operators_def)

end
